theory Spec2Isabelle
  imports Complex_Main "HOL-Library.Sublist"
begin

section \<open>Data model of the recommendation engine\<close>

text \<open>
  The engine is \<^verbatim>\<open>Reco_Engine_v2/engine/recommendation_engine.py\<close> (class
  \<^verbatim>\<open>FixedNABARDRecommendationEngine\<close>); the older variant is
  \<^verbatim>\<open>Reco_Engine_v1/engine/recommendation_engine.py\<close>.
  Python floats are modelled by the reals: arithmetic is exact, and the one float value
  that matters to control flow, NaN, is written out where the source tests for it.
  A float division by zero raises \<^verbatim>\<open>ZeroDivisionError\<close>, as for the built-in
  \<^verbatim>\<open>float\<close> fields the dataclass declares.
\<close>

datatype error =
    ZeroDivisionError
  | KeyError string
  | ValueError string

text \<open>The dataclass \<^verbatim>\<open>EnhancedFarmProfile\<close>. The sample standard deviation of one
  value is NaN in pandas: \<open>temp_variability\<close> is \<open>None\<close> then.\<close>

record EnhancedFarmProfile =
  farm_id :: string
  lat :: real
  lon :: real
  total_rainfall :: real
  rainy_days :: int
  avg_temp :: real
  avg_humidity :: real
  kharif_rainfall :: real
  rabi_rainfall :: real
  ndvi_mean :: real
  evi_mean :: real
  lai_mean :: real
  vegetation_health :: string
  soil_ph_avg :: real
  clay_pct_avg :: real
  sand_pct_avg :: real
  silt_pct_avg :: real
  soc_avg :: real
  cec_avg :: real
  texture :: string
  nutrient_status :: string
  ph_status :: string
  heat_stress_days :: int
  drought_stress_days :: int
  temp_variability :: "real option"
  recent_rainfall :: real
  recent_avg_temp :: real
  recent_avg_humidity :: real
  detected_zone :: string

text \<open>A variety dictionary as \<^verbatim>\<open>_initialize_complete_database\<close> builds it. The three
  ranges are two-element lists \<^verbatim>\<open>[low, high]\<close>, read by index 0 and 1.\<close>

record variety =
  variety_id :: string
  variety_name :: string
  category :: string
  zones :: "string list"
  carbon_potential :: real
  market_value :: string
  ph_tolerance :: "real \<times> real"
  rainfall_range :: "real \<times> real"
  temp_range :: "real \<times> real"
  water_requirement :: string
  soil_preference :: string
  climate_suitability :: string
  characteristics :: string
  special_features :: string

subsection \<open>The weight table of \<^verbatim>\<open>_initialize_enhanced_rules\<close>\<close>

definition exact_match :: real where "exact_match = 0.50"
definition adjacent_zone :: real where "adjacent_zone = 0.20"
definition climate_similarity :: real where "climate_similarity = 0.05"
definition rainfall_match_w :: real where "rainfall_match_w = 0.25"
definition temperature_match_w :: real where "temperature_match_w = 0.20"
definition humidity_tolerance :: real where "humidity_tolerance = 0.10"
definition ph_match_w :: real where "ph_match_w = 0.25"
definition texture_match_w :: real where "texture_match_w = 0.15"
definition nutrient_match_w :: real where "nutrient_match_w = 0.10"
definition ndvi_bonus :: real where "ndvi_bonus = 0.05"
definition stress_penalty :: real where "stress_penalty = 0.10"
definition market_value_w :: real where "market_value_w = 0.05"
definition carbon_potential_w :: real where "carbon_potential_w = 0.10"

section \<open>Soil pH correction\<close>

text \<open>\<^verbatim>\<open>_fix_soil_ph_value\<close>. The raw value is a float that may be NaN
  (\<^verbatim>\<open>pd.isna\<close>).\<close>

datatype pyfloat = Num real | NaN

fun fix_soil_ph_value :: "pyfloat \<Rightarrow> real" where
  "fix_soil_ph_value NaN = 7.0"
| "fix_soil_ph_value (Num raw_ph_value) =
     (if raw_ph_value \<le> 0 then 7.0
      else if raw_ph_value > 14 then
        (if raw_ph_value > 100 then raw_ph_value / 100 else raw_ph_value / 10)
      else raw_ph_value)"

text \<open>\<^verbatim>\<open>_classify_ph_status\<close>.\<close>

definition classify_ph_status :: "real \<Rightarrow> string" where
  "classify_ph_status ph =
     (if ph < 5.5 then ''Very Acidic''
      else if ph < 6.0 then ''Acidic''
      else if ph < 6.8 then ''Slightly Acidic''
      else if ph \<le> 7.2 then ''Neutral''
      else if ph \<le> 7.8 then ''Slightly Alkaline''
      else if ph \<le> 8.5 then ''Alkaline''
      else ''Very Alkaline'')"

section \<open>Suitability scoring\<close>

text \<open>Float division: the divisor 0 raises.\<close>

definition py_div :: "real \<Rightarrow> real \<Rightarrow> error + real" where
  "py_div a b = (if b = 0 then Inl ZeroDivisionError else Inr (a / b))"

subsection \<open>The v2 engine\<close>

text \<open>The rainfall and temperature blocks of \<^verbatim>\<open>calculate_enhanced_suitability_score\<close>
  are the same code on different fields; the pH block doubles the distance.\<close>

definition range_distance :: "real \<times> real \<Rightarrow> real \<Rightarrow> error + real" where
  "range_distance rng x =
     (if x < fst rng then py_div (fst rng - x) (fst rng)
      else py_div (x - snd rng) (snd rng))"

definition climate_match :: "real \<times> real \<Rightarrow> real \<Rightarrow> error + real" where
  "climate_match rng x =
     (if fst rng \<le> x \<and> x \<le> snd rng then Inr 1.0
      else case range_distance rng x of
             Inl e \<Rightarrow> Inl e
           | Inr distance \<Rightarrow> Inr (max 0 (1.0 - distance)))"

definition ph_match :: "real \<times> real \<Rightarrow> real \<Rightarrow> error + real" where
  "ph_match rng x =
     (if fst rng \<le> x \<and> x \<le> snd rng then Inr 1.0
      else case range_distance rng x of
             Inl e \<Rightarrow> Inl e
           | Inr distance \<Rightarrow> Inr (max 0 (1.0 - distance * 2)))"

definition zone_score :: "EnhancedFarmProfile \<Rightarrow> variety \<Rightarrow> real" where
  "zone_score farm_profile v =
     (if detected_zone farm_profile \<in> set (zones v) then exact_match
      else climate_similarity)"

definition soil_bonus :: "EnhancedFarmProfile \<Rightarrow> variety \<Rightarrow> real" where
  "soil_bonus farm_profile v =
     (if sublist (soil_preference v) (texture farm_profile) then texture_match_w else 0)
   + (if nutrient_status farm_profile \<in> set [''Good'', ''Excellent'']
         \<and> market_value v = ''Premium'' then nutrient_match_w else 0)"

definition adjustments :: "EnhancedFarmProfile \<Rightarrow> variety \<Rightarrow> real" where
  "adjustments farm_profile v =
     (if vegetation_health farm_profile \<in> set [''Good'', ''Excellent'']
      then ndvi_bonus else 0)
   - (if heat_stress_days farm_profile > 60 \<or> drought_stress_days farm_profile > 180
      then stress_penalty else 0)
   + (if market_value v = ''Premium'' then market_value_w else 0)
   + (if carbon_potential v > 5.0 then carbon_potential_w else 0)"

text \<open>The body of the \<^verbatim>\<open>try\<close> block: the running \<^verbatim>\<open>total_score\<close>, or the
  exception a division raised.\<close>

definition total_score :: "EnhancedFarmProfile \<Rightarrow> variety \<Rightarrow> error + real" where
  "total_score farm_profile v =
     (case climate_match (rainfall_range v) (total_rainfall farm_profile) of
        Inl e \<Rightarrow> Inl e
      | Inr rainfall_match \<Rightarrow>
     (case climate_match (temp_range v) (avg_temp farm_profile) of
        Inl e \<Rightarrow> Inl e
      | Inr temp_match \<Rightarrow>
     (case ph_match (ph_tolerance v) (soil_ph_avg farm_profile) of
        Inl e \<Rightarrow> Inl e
      | Inr ph_m \<Rightarrow>
          Inr (zone_score farm_profile v
               + (rainfall_match * rainfall_match_w + temp_match * temperature_match_w)
               + (ph_m * ph_match_w + soil_bonus farm_profile v)
               + adjustments farm_profile v))))"

text \<open>\<^verbatim>\<open>calculate_enhanced_suitability_score\<close> of v2: the clamp, and
  \<^verbatim>\<open>except Exception: return 0.0\<close>.\<close>

definition calculate_enhanced_suitability_score :: "EnhancedFarmProfile \<Rightarrow> variety \<Rightarrow> real" where
  "calculate_enhanced_suitability_score farm_profile v =
     (case total_score farm_profile v of
        Inl e \<Rightarrow> 0.0
      | Inr t \<Rightarrow> max 0.0 (min 1.0 t))"

subsection \<open>The v1 engine\<close>

text \<open>The v1 function has no \<^verbatim>\<open>try\<close>: an exception leaves the function.\<close>

definition calculate_enhanced_suitability_score_v1 ::
  "EnhancedFarmProfile \<Rightarrow> variety \<Rightarrow> error + real" where
  "calculate_enhanced_suitability_score_v1 farm_profile v =
     (let zone_sc = (if detected_zone farm_profile \<in> set (zones v) then exact_match
                     else climate_similarity);
          rr = rainfall_range v; farm_rainfall = total_rainfall farm_profile;
          tr = temp_range v; farm_temp = avg_temp farm_profile;
          pr = ph_tolerance v; farm_ph = soil_ph_avg farm_profile
      in
      (case (if fst rr \<le> farm_rainfall \<and> farm_rainfall \<le> snd rr then Inr 1.0
             else (case (if farm_rainfall < fst rr
                         then py_div (fst rr - farm_rainfall) (fst rr)
                         else py_div (farm_rainfall - snd rr) (snd rr)) of
                     Inl e \<Rightarrow> Inl e
                   | Inr distance \<Rightarrow> Inr (max 0 (1.0 - distance)))) of
         Inl e \<Rightarrow> Inl e
       | Inr rainfall_match \<Rightarrow>
      (case (if fst tr \<le> farm_temp \<and> farm_temp \<le> snd tr then Inr 1.0
             else (case (if farm_temp < fst tr
                         then py_div (fst tr - farm_temp) (fst tr)
                         else py_div (farm_temp - snd tr) (snd tr)) of
                     Inl e \<Rightarrow> Inl e
                   | Inr distance \<Rightarrow> Inr (max 0 (1.0 - distance)))) of
         Inl e \<Rightarrow> Inl e
       | Inr temp_match \<Rightarrow>
      (case (if fst pr \<le> farm_ph \<and> farm_ph \<le> snd pr then Inr 1.0
             else (case (if farm_ph < fst pr
                         then py_div (fst pr - farm_ph) (fst pr)
                         else py_div (farm_ph - snd pr) (snd pr)) of
                     Inl e \<Rightarrow> Inl e
                   | Inr distance \<Rightarrow> Inr (max 0 (1.0 - distance * 2)))) of
         Inl e \<Rightarrow> Inl e
       | Inr ph_m \<Rightarrow>
          Inr (max 0.0 (min 1.0
            (zone_sc
             + (rainfall_match * rainfall_match_w + temp_match * temperature_match_w)
             + (ph_m * ph_match_w
                + (if sublist (soil_preference v) (texture farm_profile)
                   then texture_match_w else 0)
                + (if nutrient_status farm_profile \<in> set [''Good'', ''Excellent'']
                      \<and> market_value v = ''Premium'' then nutrient_match_w else 0))
             + (if vegetation_health farm_profile \<in> set [''Good'', ''Excellent'']
                then ndvi_bonus else 0)
             - (if heat_stress_days farm_profile > 60
                   \<or> drought_stress_days farm_profile > 180
                then stress_penalty else 0)
             + (if market_value v = ''Premium'' then market_value_w else 0)
             + (if carbon_potential v > 5.0 then carbon_potential_w else 0))))))))"

section \<open>Zone catalog and zone detection\<close>

record characteristics_info =
  climate_type :: string
  elevation :: string
  major_crops :: "string list"

record zone_info =
  zone_name :: string
  lat_range :: "real \<times> real"
  lon_range :: "real \<times> real"
  zone_rainfall_range :: "real \<times> real"
  zone_temp_range :: "real \<times> real"
  states :: "string list"
  zone_characteristics :: characteristics_info

text \<open>\<^verbatim>\<open>self.zone_mappings\<close> is a dictionary iterated in insertion order: an
  association list from zone id to zone.\<close>

type_synonym zone_mappings_t = "(string \<times> zone_info) list"

text \<open>\<^verbatim>\<open>_initialize_complete_zone_mappings\<close> of v2.\<close>

definition initialize_complete_zone_mappings :: zone_mappings_t where
  "initialize_complete_zone_mappings = [
    (''Zone_1_Western_Himalayan'',
      \<lparr>zone_name = ''Western Himalayan Region'',
       lat_range = (28, 37), lon_range = (74, 80),
       zone_rainfall_range = (1000, 2500), zone_temp_range = (5, 25),
       states = [''Jammu & Kashmir'', ''Himachal Pradesh'', ''Uttarakhand''],
       zone_characteristics = \<lparr>climate_type = ''Temperate to alpine'', elevation = ''High'',
         major_crops = [''Apple'', ''Rice'', ''Wheat'', ''Maize'']\<rparr>\<rparr>),
    (''Zone_2_Eastern_Himalayan'',
      \<lparr>zone_name = ''Eastern Himalayan Region'',
       lat_range = (26, 30), lon_range = (88, 98),
       zone_rainfall_range = (1500, 3000), zone_temp_range = (8, 28),
       states = [''Sikkim'', ''Darjeeling'', ''Arunachal Pradesh''],
       zone_characteristics = \<lparr>climate_type = ''Humid temperate'', elevation = ''High'',
         major_crops = [''Tea'', ''Rice'', ''Maize'', ''Ginger'']\<rparr>\<rparr>),
    (''Zone_3_Lower_Gangetic'',
      \<lparr>zone_name = ''Lower Gangetic Plains Region'',
       lat_range = (22, 26), lon_range = (86, 92),
       zone_rainfall_range = (1200, 1800), zone_temp_range = (15, 38),
       states = [''West Bengal'', ''Bihar''],
       zone_characteristics = \<lparr>climate_type = ''Humid subtropical'', elevation = ''Low'',
         major_crops = [''Rice'', ''Jute'', ''Sugarcane'', ''Potato'']\<rparr>\<rparr>),
    (''Zone_4_Middle_Gangetic'',
      \<lparr>zone_name = ''Middle Gangetic Plains Region'',
       lat_range = (24, 27), lon_range = (82, 88),
       zone_rainfall_range = (1000, 1500), zone_temp_range = (12, 40),
       states = [''Eastern UP'', ''Bihar''],
       zone_characteristics = \<lparr>climate_type = ''Humid subtropical'', elevation = ''Low'',
         major_crops = [''Rice'', ''Wheat'', ''Sugarcane'', ''Maize'']\<rparr>\<rparr>),
    (''Zone_5_Upper_Gangetic'',
      \<lparr>zone_name = ''Upper Gangetic Plains Region'',
       lat_range = (26, 31), lon_range = (77, 84),
       zone_rainfall_range = (600, 1200), zone_temp_range = (8, 42),
       states = [''Western UP'', ''Uttarakhand'', ''Delhi''],
       zone_characteristics = \<lparr>climate_type = ''Semi-arid to sub-humid'', elevation = ''Low'',
         major_crops = [''Wheat'', ''Rice'', ''Sugarcane'', ''Cotton'']\<rparr>\<rparr>),
    (''Zone_6_Trans_Gangetic'',
      \<lparr>zone_name = ''Trans-Gangetic Plains Region'',
       lat_range = (28, 33), lon_range = (74, 78),
       zone_rainfall_range = (300, 800), zone_temp_range = (2, 45),
       states = [''Punjab'', ''Haryana'', ''Delhi'', ''Rajasthan''],
       zone_characteristics = \<lparr>climate_type = ''Semi-arid'', elevation = ''Low'',
         major_crops = [''Wheat'', ''Rice'', ''Cotton'', ''Mustard'']\<rparr>\<rparr>),
    (''Zone_7_Eastern_Plateau'',
      \<lparr>zone_name = ''Eastern Plateau and Hills Region'',
       lat_range = (21, 25), lon_range = (82, 88),
       zone_rainfall_range = (1000, 1600), zone_temp_range = (15, 40),
       states = [''Jharkhand'', ''Chhattisgarh'', ''Madhya Pradesh'', ''Odisha''],
       zone_characteristics = \<lparr>climate_type = ''Sub-humid'', elevation = ''Medium'',
         major_crops = [''Rice'', ''Maize'', ''Pulses'', ''Millets'']\<rparr>\<rparr>),
    (''Zone_8_Central_Plateau'',
      \<lparr>zone_name = ''Central Plateau and Hills Region'',
       lat_range = (21, 26), lon_range = (74, 82),
       zone_rainfall_range = (800, 1400), zone_temp_range = (12, 42),
       states = [''Madhya Pradesh'', ''Rajasthan'', ''Uttar Pradesh''],
       zone_characteristics = \<lparr>climate_type = ''Sub-humid to semi-arid'', elevation = ''Medium'',
         major_crops = [''Soybean'', ''Wheat'', ''Cotton'', ''Sugarcane'']\<rparr>\<rparr>),
    (''Zone_9_Western_Plateau'',
      \<lparr>zone_name = ''Western Plateau and Hills Region'',
       lat_range = (17, 24), lon_range = (72, 77),
       zone_rainfall_range = (500, 1200), zone_temp_range = (15, 40),
       states = [''Maharashtra'', ''Madhya Pradesh'', ''Rajasthan''],
       zone_characteristics = \<lparr>climate_type = ''Semi-arid'', elevation = ''Medium'',
         major_crops = [''Cotton'', ''Sorghum'', ''Sugarcane'', ''Onion'']\<rparr>\<rparr>),
    (''Zone_10_Southern_Plateau'',
      \<lparr>zone_name = ''Southern Plateau and Hills Region'',
       lat_range = (12, 20), lon_range = (74, 80),
       zone_rainfall_range = (600, 1400), zone_temp_range = (20, 35),
       states = [''Karnataka'', ''Andhra Pradesh'', ''Telangana'', ''Tamil Nadu''],
       zone_characteristics = \<lparr>climate_type = ''Semi-arid to sub-humid'', elevation = ''Medium'',
         major_crops = [''Rice'', ''Cotton'', ''Sugarcane'', ''Groundnut'']\<rparr>\<rparr>),
    (''Zone_11_East_Coast'',
      \<lparr>zone_name = ''East Coast Plains and Hills Region'',
       lat_range = (17, 22), lon_range = (82, 87),
       zone_rainfall_range = (1000, 1400), zone_temp_range = (22, 38),
       states = [''Odisha'', ''Andhra Pradesh'', ''Tamil Nadu''],
       zone_characteristics = \<lparr>climate_type = ''Sub-humid coastal'', elevation = ''Low'',
         major_crops = [''Rice'', ''Sugarcane'', ''Coconut'', ''Cashew'']\<rparr>\<rparr>),
    (''Zone_12_West_Coast'',
      \<lparr>zone_name = ''West Coast Plains and Ghats Region'',
       lat_range = (8, 17), lon_range = (72, 77),
       zone_rainfall_range = (2000, 4000), zone_temp_range = (22, 32),
       states = [''Kerala'', ''Karnataka'', ''Goa'', ''Maharashtra''],
       zone_characteristics = \<lparr>climate_type = ''Humid tropical'', elevation = ''Low'',
         major_crops = [''Rice'', ''Coconut'', ''Spices'', ''Rubber'']\<rparr>\<rparr>),
    (''Zone_13_Gujarat'',
      \<lparr>zone_name = ''Gujarat Plains and Hills Region'',
       lat_range = (20, 25), lon_range = (68, 75),
       zone_rainfall_range = (400, 1200), zone_temp_range = (15, 42),
       states = [''Gujarat'', ''Rajasthan''],
       zone_characteristics = \<lparr>climate_type = ''Semi-arid to arid'', elevation = ''Low to medium'',
         major_crops = [''Cotton'', ''Groundnut'', ''Castor'', ''Wheat'']\<rparr>\<rparr>),
    (''Zone_14_Western_Dry'',
      \<lparr>zone_name = ''Western Dry Region'',
       lat_range = (24, 30), lon_range = (69, 76),
       zone_rainfall_range = (100, 500), zone_temp_range = (5, 48),
       states = [''Rajasthan'', ''Gujarat''],
       zone_characteristics = \<lparr>climate_type = ''Arid to semi-arid'', elevation = ''Low'',
         major_crops = [''Pearl Millet'', ''Cluster Bean'', ''Moth Bean'', ''Sesame'']\<rparr>\<rparr>),
    (''Zone_15_Island'',
      \<lparr>zone_name = ''Island Region'',
       lat_range = (6, 14), lon_range = (71, 94),
       zone_rainfall_range = (1500, 3500), zone_temp_range = (24, 32),
       states = [''Andaman & Nicobar'', ''Lakshadweep''],
       zone_characteristics = \<lparr>climate_type = ''Tropical maritime'', elevation = ''Low'',
         major_crops = [''Coconut'', ''Rice'', ''Spices'', ''Fruits'']\<rparr>\<rparr>)
  ]"

text \<open>Truthiness of \<^verbatim>\<open>best_match\<close> and \<^verbatim>\<open>closest_zone\<close>: \<^verbatim>\<open>None\<close> and the
  empty string are false.\<close>

fun truthy :: "string option \<Rightarrow> bool" where
  "truthy None = False"
| "truthy (Some s) = (s \<noteq> [])"

definition zone_center :: "zone_info \<Rightarrow> real \<times> real" where
  "zone_center zi =
     (let (lat_min, lat_max) = lat_range zi; (lon_min, lon_max) = lon_range zi
      in ((lat_min + lat_max) / 2, (lon_min + lon_max) / 2))"

definition center_distance :: "zone_info \<Rightarrow> real \<Rightarrow> real \<Rightarrow> real" where
  "center_distance zi la lo =
     (let (lat_center, lon_center) = zone_center zi
      in sqrt ((la - lat_center)\<^sup>2 + (lo - lon_center)\<^sup>2))"

text \<open>The body of the first loop of \<^verbatim>\<open>detect_zone_from_coordinates\<close>, on the
  state \<^verbatim>\<open>(best_match, best_score)\<close>.\<close>

definition match_step ::
  "real \<Rightarrow> real \<Rightarrow> string option \<times> real \<Rightarrow> string \<times> zone_info \<Rightarrow> string option \<times> real" where
  "match_step la lo st z =
     (let (best_match, best_score) = st; (zone_id, zi) = z;
          (lat_min, lat_max) = lat_range zi; (lon_min, lon_max) = lon_range zi
      in if lat_min \<le> la \<and> la \<le> lat_max \<and> lon_min \<le> lo \<and> lo \<le> lon_max then
           (let score = 1.0 / (1.0 + center_distance zi la lo)
            in if score > best_score then (Some zone_id, score)
               else (best_match, best_score))
         else (best_match, best_score))"

text \<open>The body of the second loop, on \<^verbatim>\<open>(closest_zone, min_distance)\<close>;
  \<^verbatim>\<open>min_distance\<close> starts at \<^verbatim>\<open>float('inf')\<close>, here \<open>None\<close>.\<close>

definition closest_step ::
  "real \<Rightarrow> real \<Rightarrow> string option \<times> real option \<Rightarrow> string \<times> zone_info
     \<Rightarrow> string option \<times> real option" where
  "closest_step la lo st z =
     (let (closest_zone, min_distance) = st; (zone_id, zi) = z;
          distance = center_distance zi la lo
      in if (case min_distance of None \<Rightarrow> True | Some m \<Rightarrow> distance < m)
         then (Some zone_id, Some distance)
         else (closest_zone, min_distance))"

definition detect_zone_from_coordinates :: "zone_mappings_t \<Rightarrow> real \<Rightarrow> real \<Rightarrow> string" where
  "detect_zone_from_coordinates zm la lo =
     (let best_match = fst (foldl (match_step la lo) (None, 0) zm)
      in if truthy best_match then the best_match
         else (let closest_zone = fst (foldl (closest_step la lo) (None, None) zm)
               in if truthy closest_zone then the closest_zone
                  else ''Zone_10_Southern_Plateau''))"

section \<open>Farm profile construction\<close>

text \<open>Rows of the three data frames. The weather row carries the calendar month that
  \<^verbatim>\<open>pd.to_datetime(...).dt.month\<close> reads from its date. In a soil row \<open>None\<close> is a
  column the frame does not have.\<close>

record weather_row =
  w_farm_id :: string
  w_lat :: real
  w_lon :: real
  w_month :: nat
  precip :: real
  temp :: real
  temp_max :: real
  humidity :: real

record satellite_row =
  s_farm_id :: string
  data_type :: string
  NDVI :: real
  EVI :: real
  LAI :: real

record soil_row =
  so_farm_id :: string
  phh2o_avg :: "pyfloat option"
  so_clay_pct_avg :: "real option"
  so_sand_pct_avg :: "real option"
  so_silt_pct_avg :: "real option"
  so_soc_avg :: "real option"
  so_cec_avg :: "real option"
  so_texture :: "string option"
  so_nutrient_status :: "string option"

text \<open>\<^verbatim>\<open>Series.mean()\<close> of a non-empty column and \<^verbatim>\<open>Series.std()\<close> (sample
  standard deviation, NaN below two values).\<close>

definition mean :: "real list \<Rightarrow> real" where
  "mean xs = sum_list xs / real (length xs)"

definition std :: "real list \<Rightarrow> real option" where
  "std xs =
     (if length xs < 2 then None
      else Some (sqrt (sum_list (map (\<lambda>x. (x - mean xs)\<^sup>2) xs) / real (length xs - 1))))"

text \<open>\<^verbatim>\<open>DataFrame.tail(n)\<close>.\<close>

definition tail :: "nat \<Rightarrow> 'a list \<Rightarrow> 'a list" where
  "tail n xs = drop (length xs - n) xs"

text \<open>The satellite block: the rows of the farm with \<^verbatim>\<open>data_type == 'vegetation'\<close>,
  cleaned of \<^verbatim>\<open>NDVI >= 1.0\<close>, and the three means.\<close>

definition farm_satellite_rows :: "satellite_row list \<Rightarrow> string \<Rightarrow> satellite_row list" where
  "farm_satellite_rows satellite_df fid =
     filter (\<lambda>r. s_farm_id r = fid \<and> data_type r = ''vegetation'') satellite_df"

definition vegetation_means :: "satellite_row list \<Rightarrow> string \<Rightarrow> real \<times> real \<times> real" where
  "vegetation_means satellite_df fid =
     (let farm_satellite = farm_satellite_rows satellite_df fid
      in if farm_satellite \<noteq> [] then
           (let farm_satellite_clean = filter (\<lambda>r. NDVI r < 1.0) farm_satellite
            in ((if length farm_satellite_clean > 0
                 then mean (map NDVI farm_satellite_clean) else 0.2),
                (if length farm_satellite_clean > 0
                 then mean (map EVI farm_satellite_clean) else 0.2),
                (if length farm_satellite_clean > 0
                 then mean (map LAI farm_satellite_clean) else 0.5)))
         else (0.2, 0.2, 0.5))"

definition classify_vegetation_health :: "real \<Rightarrow> string" where
  "classify_vegetation_health n =
     (if n > 0.6 then ''Excellent''
      else if n > 0.4 then ''Good''
      else if n > 0.2 then ''Fair''
      else ''Poor'')"

text \<open>\<^verbatim>\<open>create_farm_profile_from_data\<close>. The state and district lookups only feed
  the log. An exception is logged and raised again.\<close>

definition create_farm_profile_from_data ::
  "zone_mappings_t \<Rightarrow> weather_row list \<Rightarrow> satellite_row list \<Rightarrow> soil_row list \<Rightarrow> string
     \<Rightarrow> error + EnhancedFarmProfile" where
  "create_farm_profile_from_data zm weather_df satellite_df soil_df fid =
     (case filter (\<lambda>r. w_farm_id r = fid) weather_df of
        [] \<Rightarrow> Inl (ValueError (''No weather data found for farm '' @ fid))
      | first # rest \<Rightarrow>
          (let farm_weather = first # rest;
               la = w_lat first; lo = w_lon first;
               kharif_months = [6, 7, 8, 9, 10];
               rabi_months = [11, 12, 1, 2, 3];
               recent_data = tail 30 farm_weather;
               (ndvi, evi, lai) = vegetation_means satellite_df fid;
               soil = (case filter (\<lambda>r. so_farm_id r = fid) soil_df of
                         [] \<Rightarrow> None | r # _ \<Rightarrow> Some r);
               ph = (case soil of
                       None \<Rightarrow> 7.0
                     | Some r \<Rightarrow> fix_soil_ph_value
                         (case phh2o_avg r of None \<Rightarrow> Num 70.0 | Some raw \<Rightarrow> raw))
           in Inr \<lparr>
                farm_id = fid,
                lat = la,
                lon = lo,
                total_rainfall = sum_list (map precip farm_weather),
                rainy_days = int (length (filter (\<lambda>r. precip r > 0) farm_weather)),
                avg_temp = mean (map temp farm_weather),
                avg_humidity = mean (map humidity farm_weather),
                kharif_rainfall =
                  sum_list (map precip
                    (filter (\<lambda>r. w_month r \<in> set kharif_months) farm_weather)),
                rabi_rainfall =
                  sum_list (map precip
                    (filter (\<lambda>r. w_month r \<in> set rabi_months) farm_weather)),
                ndvi_mean = ndvi,
                evi_mean = evi,
                lai_mean = lai,
                vegetation_health = classify_vegetation_health ndvi,
                soil_ph_avg = ph,
                clay_pct_avg = (case soil of None \<Rightarrow> 30.0
                  | Some r \<Rightarrow> (case so_clay_pct_avg r of None \<Rightarrow> 30.0 | Some x \<Rightarrow> x)),
                sand_pct_avg = (case soil of None \<Rightarrow> 40.0
                  | Some r \<Rightarrow> (case so_sand_pct_avg r of None \<Rightarrow> 40.0 | Some x \<Rightarrow> x)),
                silt_pct_avg = (case soil of None \<Rightarrow> 30.0
                  | Some r \<Rightarrow> (case so_silt_pct_avg r of None \<Rightarrow> 30.0 | Some x \<Rightarrow> x)),
                soc_avg = (case soil of None \<Rightarrow> 1.5
                  | Some r \<Rightarrow> (case so_soc_avg r of None \<Rightarrow> 1.5 | Some x \<Rightarrow> x)),
                cec_avg = (case soil of None \<Rightarrow> 15.0
                  | Some r \<Rightarrow> (case so_cec_avg r of None \<Rightarrow> 15.0 | Some x \<Rightarrow> x)),
                texture = (case soil of None \<Rightarrow> ''Loam''
                  | Some r \<Rightarrow> (case so_texture r of None \<Rightarrow> ''Loam'' | Some x \<Rightarrow> x)),
                nutrient_status = (case soil of None \<Rightarrow> ''Moderate''
                  | Some r \<Rightarrow>
                      (case so_nutrient_status r of None \<Rightarrow> ''Moderate'' | Some x \<Rightarrow> x)),
                ph_status = (case soil of None \<Rightarrow> ''Neutral''
                  | Some r \<Rightarrow> classify_ph_status ph),
                heat_stress_days = int (length (filter (\<lambda>r. temp_max r > 35) farm_weather)),
                drought_stress_days = int (length (filter (\<lambda>r. precip r = 0) farm_weather)),
                temp_variability = std (map temp farm_weather),
                recent_rainfall = sum_list (map precip recent_data),
                recent_avg_temp = mean (map temp recent_data),
                recent_avg_humidity = mean (map humidity recent_data),
                detected_zone = detect_zone_from_coordinates zm la lo
              \<rparr>))"

section \<open>Recommendation generation\<close>

record recommendation =
  rec_variety_id :: string
  rec_variety_name :: string
  rec_category :: string
  suitability_score :: real
  rec_carbon_potential :: real
  rec_market_value :: string
  confidence_level :: real
  rec_zones :: "string list"
  rec_climate_suitability :: string
  rec_water_requirement :: string
  rec_soil_preference :: string
  rec_characteristics :: string
  rec_special_features :: string

text \<open>The dictionary \<^verbatim>\<open>recommendations\<close> with its three fixed keys.\<close>

record recommendation_lists =
  rice :: "recommendation list"
  agroforestry :: "recommendation list"
  crops :: "recommendation list"

text \<open>\<^verbatim>\<open>self.database\<close>: three lists, in the order the dictionary is built.\<close>

record database =
  rice_varieties :: "variety list"
  agroforestry_species :: "variety list"
  crop_varieties :: "variety list"

record engine =
  db :: database
  zone_mappings :: zone_mappings_t

definition get_all_varieties :: "engine \<Rightarrow> variety list" where
  "get_all_varieties eng =
     rice_varieties (db eng) @ agroforestry_species (db eng) @ crop_varieties (db eng)"

text \<open>\<^verbatim>\<open>round(x, ndigits)\<close>: to the nearest multiple of \<open>10\<^sup>-\<^sup>n\<close>, a tie to the
  even one.\<close>

definition round_half_even :: "real \<Rightarrow> int" where
  "round_half_even y =
     (let f = \<lfloor>y\<rfloor>; d = y - of_int f
      in if d < 1 / 2 then f
         else if d > 1 / 2 then f + 1
         else if even f then f else f + 1)"

definition py_round :: "real \<Rightarrow> nat \<Rightarrow> real" where
  "py_round x ndigits = of_int (round_half_even (x * 10 ^ ndigits)) / 10 ^ ndigits"

text \<open>\<^verbatim>\<open>_calculate_realistic_carbon_potential\<close>: the running sum
  \<^verbatim>\<open>realistic_carbon\<close> through the four \<^verbatim>\<open>if\<close> blocks.\<close>

definition calculate_realistic_carbon_potential ::
  "recommendation_lists \<Rightarrow> real \<times> real \<times> real" where
  "calculate_realistic_carbon_potential recommendations =
     (let c0 = 0.0;
          c1 = (if rice recommendations \<noteq> []
                then c0 + rec_carbon_potential (rice recommendations ! 0) * 0.4 else c0);
          c2 = (if crops recommendations \<noteq> []
                then c1 + rec_carbon_potential (crops recommendations ! 0) * 0.3 else c1);
          c3 = (if length (crops recommendations) > 1
                then c2 + rec_carbon_potential (crops recommendations ! 1) * 0.2 else c2);
          realistic_carbon = (if agroforestry recommendations \<noteq> []
                then c3 + rec_carbon_potential (agroforestry recommendations ! 0) * 0.1
                else c3);
          estimated_credits = realistic_carbon * 0.85;
          estimated_revenue = estimated_credits * 25.0
      in (realistic_carbon, estimated_credits, estimated_revenue))"

text \<open>The inner loop of \<^verbatim>\<open>generate_recommendations\<close> over the varieties of one
  category: the list \<^verbatim>\<open>category_recommendations\<close> before it is sorted.\<close>

fun category_recommendations ::
  "EnhancedFarmProfile \<Rightarrow> string \<Rightarrow> variety list \<Rightarrow> recommendation list" where
  "category_recommendations farm_profile category_name [] = []"
| "category_recommendations farm_profile category_name (v # varieties) =
     (let score = calculate_enhanced_suitability_score farm_profile v;
          confidence = score * 0.85;
          later = category_recommendations farm_profile category_name varieties
      in if score \<ge> 0.70 then
           \<lparr>rec_variety_id = variety_id v,
            rec_variety_name = variety_name v,
            rec_category = category_name,
            suitability_score = py_round score 3,
            rec_carbon_potential = carbon_potential v,
            rec_market_value = market_value v,
            confidence_level = py_round confidence 4,
            rec_zones = zones v,
            rec_climate_suitability = climate_suitability v,
            rec_water_requirement = water_requirement v,
            rec_soil_preference = soil_preference v,
            rec_characteristics = characteristics v,
            rec_special_features = special_features v\<rparr> # later
         else later)"

text \<open>\<^verbatim>\<open>list.sort(key=..., reverse=True)\<close>: a stable sort, largest key first.\<close>

definition sort_reverse :: "('a \<Rightarrow> real) \<Rightarrow> 'a list \<Rightarrow> 'a list" where
  "sort_reverse key xs = sort_key (\<lambda>x. - key x) xs"

text \<open>The slice \<^verbatim>\<open>xs[:n]\<close>; a negative \<open>n\<close> counts from the end.\<close>

definition slice_to :: "'a list \<Rightarrow> int \<Rightarrow> 'a list" where
  "slice_to xs n = (if n \<ge> 0 then take (nat n) xs else take (length xs - nat (- n)) xs)"

definition top_recommendations ::
  "EnhancedFarmProfile \<Rightarrow> string \<Rightarrow> variety list \<Rightarrow> int \<Rightarrow> recommendation list" where
  "top_recommendations farm_profile category_name varieties top_n =
     slice_to (sort_reverse suitability_score
                 (category_recommendations farm_profile category_name varieties)) top_n"

record analysis =
  a_farm_profile :: EnhancedFarmProfile
  a_detected_zone :: string
  a_zone_characteristics :: characteristics_info
  recommendations :: recommendation_lists
  total_varieties_evaluated :: nat
  suitable_varieties_found :: nat
  realistic_carbon_potential :: real
  estimated_annual_credits :: real
  estimated_revenue :: real

text \<open>\<^verbatim>\<open>generate_recommendations\<close>. The lookup
  \<^verbatim>\<open>self.zone_mappings[farm_profile.detected_zone]\<close> raises \<^verbatim>\<open>KeyError\<close> for a zone
  the catalog does not have. The random id and the timestamp are left out.\<close>

definition generate_recommendations ::
  "engine \<Rightarrow> EnhancedFarmProfile \<Rightarrow> int \<Rightarrow> error + analysis" where
  "generate_recommendations eng farm_profile top_n =
     (let recs = \<lparr>
            rice = top_recommendations farm_profile ''rice''
                     (rice_varieties (db eng)) top_n,
            agroforestry = top_recommendations farm_profile ''agroforestry''
                     (agroforestry_species (db eng)) top_n,
            crops = top_recommendations farm_profile ''crops''
                     (crop_varieties (db eng)) top_n\<rparr>;
          suitable =
            length (category_recommendations farm_profile ''rice''
                      (rice_varieties (db eng)))
            + length (category_recommendations farm_profile ''agroforestry''
                      (agroforestry_species (db eng)))
            + length (category_recommendations farm_profile ''crops''
                      (crop_varieties (db eng)));
          (realistic_carbon, realistic_credits, realistic_revenue) =
            calculate_realistic_carbon_potential recs
      in case map_of (zone_mappings eng) (detected_zone farm_profile) of
           None \<Rightarrow> Inl (KeyError (detected_zone farm_profile))
         | Some zi \<Rightarrow>
             Inr \<lparr>a_farm_profile = farm_profile,
                  a_detected_zone = detected_zone farm_profile,
                  a_zone_characteristics = zone_characteristics zi,
                  recommendations = recs,
                  total_varieties_evaluated = length (get_all_varieties eng),
                  suitable_varieties_found = suitable,
                  realistic_carbon_potential = py_round realistic_carbon 2,
                  estimated_annual_credits = py_round realistic_credits 2,
                  estimated_revenue = py_round realistic_revenue 2\<rparr>)"

section \<open>Batch analysis\<close>

text \<open>\<^verbatim>\<open>Series.unique()\<close>: the distinct values in order of first appearance.\<close>

definition unique :: "'a list \<Rightarrow> 'a list" where
  "unique xs = foldl (\<lambda>seen x. if x \<in> set seen then seen else seen @ [x]) [] xs"

text \<open>The \<^verbatim>\<open>for farm_id in farm_ids\<close> loop of \<^verbatim>\<open>analyze_all_farms\<close> on the
  dictionary \<^verbatim>\<open>all_results\<close>: the inner \<^verbatim>\<open>try\<close> catches every exception of one farm
  and continues with the next. Writing the JSON files is outside the model.\<close>

fun analyze_farms ::
  "engine \<Rightarrow> weather_row list \<Rightarrow> satellite_row list \<Rightarrow> soil_row list \<Rightarrow> string list
     \<Rightarrow> (string \<rightharpoonup> analysis) \<Rightarrow> (string \<rightharpoonup> analysis)" where
  "analyze_farms eng weather_df satellite_df soil_df [] all_results = all_results"
| "analyze_farms eng weather_df satellite_df soil_df (fid # farm_ids) all_results =
     (case create_farm_profile_from_data (zone_mappings eng)
             weather_df satellite_df soil_df fid of
        Inl e \<Rightarrow> analyze_farms eng weather_df satellite_df soil_df farm_ids all_results
      | Inr farm_profile \<Rightarrow>
          (case generate_recommendations eng farm_profile 5 of
             Inl e \<Rightarrow> analyze_farms eng weather_df satellite_df soil_df farm_ids all_results
           | Inr recs \<Rightarrow>
               analyze_farms eng weather_df satellite_df soil_df farm_ids
                 (all_results(fid \<mapsto> recs))))"

definition analyze_all_farms ::
  "engine \<Rightarrow> weather_row list \<Rightarrow> satellite_row list \<Rightarrow> soil_row list
     \<Rightarrow> (string \<rightharpoonup> analysis)" where
  "analyze_all_farms eng weather_df satellite_df soil_df =
     analyze_farms eng weather_df satellite_df soil_df
       (unique (map w_farm_id weather_df)) Map.empty"

section \<open>Sample inputs\<close>

text \<open>A farm at the centre of the Southern Plateau zone, and a small catalog.\<close>

definition example_profile :: EnhancedFarmProfile where
  "example_profile = \<lparr>
     farm_id = ''FARM_001'', lat = 16, lon = 77,
     total_rainfall = 900, rainy_days = 80, avg_temp = 27, avg_humidity = 65,
     kharif_rainfall = 600, rabi_rainfall = 200,
     ndvi_mean = 0.35, evi_mean = 0.3, lai_mean = 1.2, vegetation_health = ''Fair'',
     soil_ph_avg = 6.9, clay_pct_avg = 30, sand_pct_avg = 40, silt_pct_avg = 30,
     soc_avg = 1.5, cec_avg = 15, texture = ''Clay Loam'', nutrient_status = ''Moderate'',
     ph_status = ''Neutral'', heat_stress_days = 10, drought_stress_days = 100,
     temp_variability = Some 3, recent_rainfall = 40, recent_avg_temp = 26,
     recent_avg_humidity = 60, detected_zone = ''Zone_10_Southern_Plateau''\<rparr>"

definition example_variety :: variety where
  "example_variety = \<lparr>
     variety_id = ''RICE_001'', variety_name = ''Sona Masuri'', category = ''rice'',
     zones = [''Zone_10_Southern_Plateau''], carbon_potential = 2.5,
     market_value = ''High'', ph_tolerance = (6.0, 7.5), rainfall_range = (600, 1400),
     temp_range = (20, 35), water_requirement = ''High'', soil_preference = ''Alluvial'',
     climate_suitability = ''Irrigated'', characteristics = ''Fine grain'',
     special_features = ''Drought tolerant''\<rparr>"

definition example_rice_varieties :: "variety list" where
  "example_rice_varieties = [
     example_variety\<lparr>variety_id := ''RICE_002'', zones := [''Zone_11_East_Coast''],
       rainfall_range := (1000, 1400)\<rparr>,
     example_variety\<lparr>variety_id := ''RICE_003'', zones := [''Zone_11_East_Coast''],
       market_value := ''Premium''\<rparr>,
     example_variety\<lparr>variety_id := ''RICE_004'', rainfall_range := (0, 0)\<rparr>,
     example_variety\<lparr>variety_id := ''RICE_005'', zones := [''Zone_11_East_Coast''],
       market_value := ''Premium''\<rparr>,
     example_variety]"

definition example_engine :: engine where
  "example_engine = \<lparr>
     db = \<lparr>rice_varieties = example_rice_varieties,
            agroforestry_species = [],
            crop_varieties = []\<rparr>,
     zone_mappings = initialize_complete_zone_mappings\<rparr>"

definition example_recommendation :: recommendation where
  "example_recommendation = \<lparr>
     rec_variety_id = ''CROP_001'', rec_variety_name = ''Groundnut TMV-2'',
     rec_category = ''crops'', suitability_score = 0.9, rec_carbon_potential = 2.0,
     rec_market_value = ''High'', confidence_level = 0.765,
     rec_zones = [''Zone_10_Southern_Plateau''], rec_climate_suitability = ''Rainfed'',
     rec_water_requirement = ''Low'', rec_soil_preference = ''Red'',
     rec_characteristics = ''Bunch type'', rec_special_features = ''Early''\<rparr>"

definition example_weather :: "weather_row list" where
  "example_weather = [
     \<lparr>w_farm_id = ''FARM_001'', w_lat = 16, w_lon = 77, w_month = 7,
      precip = 12, temp = 26, temp_max = 31, humidity = 70\<rparr>,
     \<lparr>w_farm_id = ''FARM_002'', w_lat = 10, w_lon = 82.5, w_month = 7,
      precip = 0, temp = 29, temp_max = 36, humidity = 80\<rparr>,
     \<lparr>w_farm_id = ''FARM_001'', w_lat = 16, w_lon = 77, w_month = 12,
      precip = 0, temp = 22, temp_max = 28, humidity = 55\<rparr>]"

definition example_satellite :: "satellite_row list" where
  "example_satellite = [
     \<lparr>s_farm_id = ''FARM_001'', data_type = ''vegetation'', NDVI = 0.5, EVI = 0.4, LAI = 1.0\<rparr>,
     \<lparr>s_farm_id = ''FARM_001'', data_type = ''vegetation'', NDVI = 1.2, EVI = 0.9, LAI = 6.0\<rparr>,
     \<lparr>s_farm_id = ''FARM_001'', data_type = ''radar'', NDVI = 0.1, EVI = 0.1, LAI = 0.1\<rparr>,
     \<lparr>s_farm_id = ''FARM_001'', data_type = ''vegetation'', NDVI = 0.7, EVI = 0.5, LAI = 2.0\<rparr>,
     \<lparr>s_farm_id = ''FARM_002'', data_type = ''vegetation'', NDVI = 1.0, EVI = 0.8, LAI = 5.0\<rparr>]"

section \<open>Properties of the scoring function\<close>

lemmas rules_defs =
  exact_match_def adjacent_zone_def climate_similarity_def rainfall_match_w_def
  temperature_match_w_def humidity_tolerance_def ph_match_w_def texture_match_w_def
  nutrient_match_w_def ndvi_bonus_def stress_penalty_def market_value_w_def
  carbon_potential_w_def

text \<open>
  C1. For every farm profile and every variety, also one with a range bound equal to 0,
  the score that \<^verbatim>\<open>calculate_enhanced_suitability_score\<close> returns lies in the closed
  interval from 0 to 1: the sum is clamped, and a division by zero is caught and gives 0.
\<close>

theorem suitability_score_in_unit_interval:
  "0 \<le> calculate_enhanced_suitability_score farm_profile v
   \<and> calculate_enhanced_suitability_score farm_profile v \<le> 1"
  by (simp add: calculate_enhanced_suitability_score_def split: sum.split)

lemma zero_bound_raises:
  "total_score example_profile (example_variety\<lparr>rainfall_range := (0, 0)\<rparr>)
     = Inl ZeroDivisionError"
  by (simp add: total_score_def climate_match_def range_distance_def py_div_def
      example_profile_def example_variety_def)

theorem suitability_score_in_unit_interval_witness:
  "calculate_enhanced_suitability_score example_profile
     (example_variety\<lparr>rainfall_range := (0, 0)\<rparr>) = 0
   \<and> 0 \<le> calculate_enhanced_suitability_score example_profile
            (example_variety\<lparr>rainfall_range := (0, 0)\<rparr>)
   \<and> calculate_enhanced_suitability_score example_profile
        (example_variety\<lparr>rainfall_range := (0, 0)\<rparr>) \<le> 1"
  using suitability_score_in_unit_interval
    [of example_profile "example_variety\<lparr>rainfall_range := (0, 0)\<rparr>"]
  by (simp add: calculate_enhanced_suitability_score_def zero_bound_raises)

text \<open>With every value inside its range and the zone matched, the four main terms add
  up to 1.2, at most 0.1 is taken off, and the clamp returns 1.\<close>

lemma exact_match_score:
  assumes "fst (rainfall_range v) \<le> total_rainfall farm_profile"
    and "total_rainfall farm_profile \<le> snd (rainfall_range v)"
    and "fst (temp_range v) \<le> avg_temp farm_profile"
    and "avg_temp farm_profile \<le> snd (temp_range v)"
    and "fst (ph_tolerance v) \<le> soil_ph_avg farm_profile"
    and "soil_ph_avg farm_profile \<le> snd (ph_tolerance v)"
    and "detected_zone farm_profile \<in> set (zones v)"
  shows "calculate_enhanced_suitability_score farm_profile v = 1"
  using assms
  by (simp add: calculate_enhanced_suitability_score_def total_score_def climate_match_def
      ph_match_def zone_score_def soil_bonus_def adjustments_def rules_defs)

text \<open>
  C2. If the profile's total rainfall, average temperature and soil pH lie inside the
  variety's three ranges and its detected zone is one of the variety's zones, the
  suitability score is at least 0.95.
\<close>

theorem exact_match_floor:
  assumes "fst (rainfall_range v) \<le> total_rainfall farm_profile"
    and "total_rainfall farm_profile \<le> snd (rainfall_range v)"
    and "fst (temp_range v) \<le> avg_temp farm_profile"
    and "avg_temp farm_profile \<le> snd (temp_range v)"
    and "fst (ph_tolerance v) \<le> soil_ph_avg farm_profile"
    and "soil_ph_avg farm_profile \<le> snd (ph_tolerance v)"
    and "detected_zone farm_profile \<in> set (zones v)"
  shows "0.95 \<le> calculate_enhanced_suitability_score farm_profile v"
  using exact_match_score [OF assms] by simp

theorem exact_match_floor_witness:
  "fst (rainfall_range example_variety) \<le> total_rainfall example_profile
   \<and> total_rainfall example_profile \<le> snd (rainfall_range example_variety)
   \<and> fst (temp_range example_variety) \<le> avg_temp example_profile
   \<and> avg_temp example_profile \<le> snd (temp_range example_variety)
   \<and> fst (ph_tolerance example_variety) \<le> soil_ph_avg example_profile
   \<and> soil_ph_avg example_profile \<le> snd (ph_tolerance example_variety)
   \<and> detected_zone example_profile \<in> set (zones example_variety)
   \<and> 0.95 \<le> calculate_enhanced_suitability_score example_profile example_variety"
proof -
  have h: "fst (rainfall_range example_variety) \<le> total_rainfall example_profile"
    "total_rainfall example_profile \<le> snd (rainfall_range example_variety)"
    "fst (temp_range example_variety) \<le> avg_temp example_profile"
    "avg_temp example_profile \<le> snd (temp_range example_variety)"
    "fst (ph_tolerance example_variety) \<le> soil_ph_avg example_profile"
    "soil_ph_avg example_profile \<le> snd (ph_tolerance example_variety)"
    "detected_zone example_profile \<in> set (zones example_variety)"
    by (simp_all add: example_variety_def example_profile_def)
  show ?thesis
    using h exact_match_floor [OF h] by simp
qed

section \<open>Properties of the soil pH correction\<close>

text \<open>
  C3. The soil pH correction returns v / 100 for a raw value v above 100, v / 10 for a raw
  value above 14 and at most 100, and v itself for a raw value above 0 and at most 14; so
  6.9, 69.0 and 690.0 are all corrected to 6.9.
\<close>

theorem fix_soil_ph_value_rule:
  "(100 < v \<longrightarrow> fix_soil_ph_value (Num v) = v / 100)
   \<and> (14 < v \<and> v \<le> 100 \<longrightarrow> fix_soil_ph_value (Num v) = v / 10)
   \<and> (0 < v \<and> v \<le> 14 \<longrightarrow> fix_soil_ph_value (Num v) = v)
   \<and> fix_soil_ph_value (Num 6.9) = 6.9
   \<and> fix_soil_ph_value (Num 69.0) = 6.9
   \<and> fix_soil_ph_value (Num 690.0) = 6.9"
  by simp

theorem fix_soil_ph_value_rule_witness:
  "(100::real) < 250 \<and> fix_soil_ph_value (Num 250) = 2.5
   \<and> (14::real) < 55 \<and> (55::real) \<le> 100 \<and> fix_soil_ph_value (Num 55) = 5.5
   \<and> (0::real) < 8 \<and> (8::real) \<le> 14 \<and> fix_soil_ph_value (Num 8) = 8"
  using fix_soil_ph_value_rule [of 250] fix_soil_ph_value_rule [of 55]
    fix_soil_ph_value_rule [of 8]
  by simp

section \<open>The two engine variants\<close>

lemma climate_match_total:
  "fst r \<noteq> 0 \<Longrightarrow> snd r \<noteq> 0 \<Longrightarrow> \<exists>m. climate_match r x = Inr m"
  by (simp add: climate_match_def range_distance_def py_div_def)

lemma ph_match_total:
  "fst r \<noteq> 0 \<Longrightarrow> snd r \<noteq> 0 \<Longrightarrow> \<exists>m. ph_match r x = Inr m"
  by (simp add: ph_match_def range_distance_def py_div_def)

text \<open>The v1 function, read block by block, is the v2 \<^verbatim>\<open>try\<close> body followed by the
  clamp.\<close>

lemma v1_by_blocks:
  "calculate_enhanced_suitability_score_v1 p v =
    (case climate_match (rainfall_range v) (total_rainfall p) of
        Inl e \<Rightarrow> Inl e
      | Inr rainfall_match \<Rightarrow>
     (case climate_match (temp_range v) (avg_temp p) of
        Inl e \<Rightarrow> Inl e
      | Inr temp_match \<Rightarrow>
     (case ph_match (ph_tolerance v) (soil_ph_avg p) of
        Inl e \<Rightarrow> Inl e
      | Inr ph_m \<Rightarrow>
          Inr (max 0.0 (min 1.0 (zone_score p v
               + (rainfall_match * rainfall_match_w + temp_match * temperature_match_w)
               + (ph_m * ph_match_w + soil_bonus p v)
               + adjustments p v))))))"
  unfolding calculate_enhanced_suitability_score_v1_def climate_match_def ph_match_def
    range_distance_def Let_def zone_score_def soil_bonus_def adjustments_def
  by (simp only: add.assoc diff_conv_add_uminus)

text \<open>
  C10. For every farm profile and every variety whose rainfall, temperature and pH range
  bounds are all nonzero, the v1 scoring function and the v2 scoring function return the
  same value.
\<close>

theorem v1_v2_same_score:
  assumes "fst (rainfall_range v) \<noteq> 0" and "snd (rainfall_range v) \<noteq> 0"
    and "fst (temp_range v) \<noteq> 0" and "snd (temp_range v) \<noteq> 0"
    and "fst (ph_tolerance v) \<noteq> 0" and "snd (ph_tolerance v) \<noteq> 0"
  shows "calculate_enhanced_suitability_score_v1 farm_profile v
           = Inr (calculate_enhanced_suitability_score farm_profile v)"
proof -
  obtain rm where rm: "climate_match (rainfall_range v) (total_rainfall farm_profile) = Inr rm"
    using climate_match_total assms(1,2) by blast
  obtain tm where tm: "climate_match (temp_range v) (avg_temp farm_profile) = Inr tm"
    using climate_match_total assms(3,4) by blast
  obtain pm where pm: "ph_match (ph_tolerance v) (soil_ph_avg farm_profile) = Inr pm"
    using ph_match_total assms(5,6) by blast
  show ?thesis
    by (simp only: v1_by_blocks calculate_enhanced_suitability_score_def total_score_def
        rm tm pm sum.case)
qed

theorem v1_v2_same_score_witness:
  "fst (rainfall_range example_variety) \<noteq> 0 \<and> snd (rainfall_range example_variety) \<noteq> 0
   \<and> fst (temp_range example_variety) \<noteq> 0 \<and> snd (temp_range example_variety) \<noteq> 0
   \<and> fst (ph_tolerance example_variety) \<noteq> 0 \<and> snd (ph_tolerance example_variety) \<noteq> 0
   \<and> calculate_enhanced_suitability_score_v1 example_profile example_variety
       = Inr (calculate_enhanced_suitability_score example_profile example_variety)"
proof -
  have h: "fst (rainfall_range example_variety) \<noteq> 0" "snd (rainfall_range example_variety) \<noteq> 0"
    "fst (temp_range example_variety) \<noteq> 0" "snd (temp_range example_variety) \<noteq> 0"
    "fst (ph_tolerance example_variety) \<noteq> 0" "snd (ph_tolerance example_variety) \<noteq> 0"
    by (simp_all add: example_variety_def)
  show ?thesis
    using h v1_v2_same_score [OF h, of example_profile] by simp
qed

section \<open>Properties of zone detection\<close>

lemma center_distance_nonneg: "0 \<le> center_distance zi la lo"
  by (simp add: center_distance_def split: prod.split)

lemma center_distance_zero_iff:
  "center_distance zi la lo = 0 \<longleftrightarrow> zone_center zi = (la, lo)"
  by (auto simp add: center_distance_def sum_power2_eq_zero_iff split: prod.split)

text \<open>Once the best score is 1 no later zone replaces the match: a score is at most 1
  and the comparison is strict.\<close>

lemma match_step_full: "match_step la lo (bm, 1) z = (bm, 1)"
proof -
  obtain zid zi where z: "z = (zid, zi)" by (cases z)
  have "1 / (1 + center_distance zi la lo) \<le> 1"
    using center_distance_nonneg [of zi la lo] by simp
  then show ?thesis
    by (simp add: z match_step_def Let_def split: prod.split)
qed

lemma foldl_match_step_full: "foldl (match_step la lo) (bm, 1) zs = (bm, 1)"
  by (induction zs) (simp_all add: match_step_full)

text \<open>Zones centred elsewhere keep the best score below 1.\<close>

lemma match_step_below:
  assumes "bs < 1" and "zone_center (snd z) \<noteq> (la, lo)"
  shows "snd (match_step la lo (bm, bs) z) < 1"
proof -
  obtain zid zi where z: "z = (zid, zi)" by (cases z)
  have "center_distance zi la lo \<noteq> 0"
    using assms(2) by (simp add: z center_distance_zero_iff)
  then have "0 < center_distance zi la lo"
    using center_distance_nonneg [of zi la lo] by simp
  then have "1 / (1 + center_distance zi la lo) < 1" by simp
  then show ?thesis
    using assms(1) by (simp add: z match_step_def Let_def split: prod.split)
qed

lemma foldl_match_step_below:
  assumes "bs < 1" and "\<forall>z \<in> set zs. zone_center (snd z) \<noteq> (la, lo)"
  shows "snd (foldl (match_step la lo) (bm, bs) zs) < 1"
  using assms
proof (induction zs arbitrary: bm bs)
  case Nil
  then show ?case by simp
next
  case (Cons z zs)
  obtain bm' bs' where st: "match_step la lo (bm, bs) z = (bm', bs')"
    by (cases "match_step la lo (bm, bs) z")
  have "bs' < 1"
    using match_step_below [of bs z la lo bm] Cons.prems st by simp
  then show ?case
    using Cons.IH [of bs' bm'] Cons.prems st by simp
qed

lemma match_step_at_center:
  assumes "bs < 1" and "zone_center zi = (la, lo)"
    and "fst (lat_range zi) \<le> snd (lat_range zi)"
    and "fst (lon_range zi) \<le> snd (lon_range zi)"
  shows "match_step la lo (bm, bs) (zid, zi) = (Some zid, 1)"
proof -
  have d: "center_distance zi la lo = 0"
    using assms(2) by (simp add: center_distance_zero_iff)
  obtain a b where ab: "lat_range zi = (a, b)" by (cases "lat_range zi")
  obtain c e where ce: "lon_range zi = (c, e)" by (cases "lon_range zi")
  have la: "la = (a + b) / 2" and lo: "lo = (c + e) / 2"
    using assms(2) by (simp_all add: zone_center_def ab ce)
  have "a \<le> la \<and> la \<le> b \<and> c \<le> lo \<and> lo \<le> e"
    using assms(3,4) by (simp add: la lo ab ce field_simps)
  then show ?thesis
    using assms(1) d by (simp add: match_step_def ab ce)
qed

text \<open>In a catalog whose zone centres are pairwise distinct, the centre of a zone with a
  non-empty id and a well-formed box detects that zone.\<close>

lemma detect_at_center:
  assumes "distinct (map (zone_center \<circ> snd) zm)"
    and "(zid, zi) \<in> set zm" and "zid \<noteq> []"
    and "fst (lat_range zi) \<le> snd (lat_range zi)"
    and "fst (lon_range zi) \<le> snd (lon_range zi)"
  shows "detect_zone_from_coordinates zm (fst (zone_center zi)) (snd (zone_center zi)) = zid"
proof -
  define la lo where "la = fst (zone_center zi)" and "lo = snd (zone_center zi)"
  have c: "zone_center zi = (la, lo)" by (simp add: la_def lo_def)
  obtain pre post where zm: "zm = pre @ (zid, zi) # post"
    using assms(2) by (auto simp: in_set_conv_decomp)
  have pre: "\<forall>z \<in> set pre. zone_center (snd z) \<noteq> (la, lo)"
  proof
    fix z assume "z \<in> set pre"
    then have "zone_center (snd z) \<in> (zone_center \<circ> snd) ` set pre" by simp
    moreover have "zone_center zi \<notin> (zone_center \<circ> snd) ` set pre"
      using assms(1) by (simp add: zm)
    ultimately show "zone_center (snd z) \<noteq> (la, lo)" using c by metis
  qed
  obtain bm bs where st: "foldl (match_step la lo) (None, 0) pre = (bm, bs)"
    by (cases "foldl (match_step la lo) (None, 0) pre")
  have "bs < 1"
    using foldl_match_step_below [of 0 pre la lo None] pre st by simp
  then have "match_step la lo (bm, bs) (zid, zi) = (Some zid, 1)"
    using match_step_at_center c assms(4,5) by blast
  then have "foldl (match_step la lo) (None, 0) zm = (Some zid, 1)"
    by (simp add: zm st foldl_match_step_full)
  then show ?thesis
    using assms(3) by (simp add: detect_zone_from_coordinates_def la_def lo_def)
qed

lemma zone_centers_distinct:
  "distinct (map (zone_center \<circ> snd) initialize_complete_zone_mappings)"
  by (simp add: initialize_complete_zone_mappings_def zone_center_def)

lemma zone_boxes_well_formed:
  "\<forall>(zid, zi) \<in> set initialize_complete_zone_mappings.
     zid \<noteq> [] \<and> fst (lat_range zi) \<le> snd (lat_range zi)
     \<and> fst (lon_range zi) \<le> snd (lon_range zi)"
  by (simp add: initialize_complete_zone_mappings_def)

text \<open>
  C6. For every zone of the zone catalog, \<^verbatim>\<open>detect_zone_from_coordinates\<close> called on
  the centre of the zone's bounding box returns that zone.
\<close>

theorem detect_zone_at_center:
  "\<forall>(zone_id, zi) \<in> set initialize_complete_zone_mappings.
     detect_zone_from_coordinates initialize_complete_zone_mappings
       (fst (zone_center zi)) (snd (zone_center zi)) = zone_id"
  using detect_at_center [OF zone_centers_distinct] zone_boxes_well_formed by fastforce

theorem detect_zone_at_center_witness:
  "initialize_complete_zone_mappings ! 9 \<in> set initialize_complete_zone_mappings
   \<and> fst (initialize_complete_zone_mappings ! 9) = ''Zone_10_Southern_Plateau''
   \<and> zone_center (snd (initialize_complete_zone_mappings ! 9)) = (16, 77)
   \<and> detect_zone_from_coordinates initialize_complete_zone_mappings 16 77
       = ''Zone_10_Southern_Plateau''"
proof -
  have m: "initialize_complete_zone_mappings ! 9 \<in> set initialize_complete_zone_mappings"
    by (simp add: initialize_complete_zone_mappings_def)
  have i: "fst (initialize_complete_zone_mappings ! 9) = ''Zone_10_Southern_Plateau''"
    by (simp add: initialize_complete_zone_mappings_def)
  have c: "zone_center (snd (initialize_complete_zone_mappings ! 9)) = (16, 77)"
    by (simp add: initialize_complete_zone_mappings_def zone_center_def)
  have "detect_zone_from_coordinates initialize_complete_zone_mappings
          (fst (zone_center (snd (initialize_complete_zone_mappings ! 9))))
          (snd (zone_center (snd (initialize_complete_zone_mappings ! 9))))
        = fst (initialize_complete_zone_mappings ! 9)"
    using detect_zone_at_center m by (auto simp: split_beta)
  then show ?thesis
    using m i c by simp
qed

text \<open>
  C7, as the code has it. With an empty zone catalog
  \<^verbatim>\<open>detect_zone_from_coordinates\<close> raises nothing: for every point it returns the
  default zone id \<^verbatim>\<open>Zone_10_Southern_Plateau\<close>.
\<close>

theorem detect_zone_empty_catalog_default:
  "detect_zone_from_coordinates [] la lo = ''Zone_10_Southern_Plateau''"
  by (simp add: detect_zone_from_coordinates_def)

text \<open>The claim that no zone id is returned for an empty catalog fails at the point
  (16, 77).\<close>

theorem detect_zone_empty_catalog_counterexample:
  "detect_zone_from_coordinates [] 16 77 = ''Zone_10_Southern_Plateau''"
  by (simp add: detect_zone_from_coordinates_def)

section \<open>Properties of the carbon estimate\<close>

text \<open>
  C5. For every recommendation set the blended carbon figure is 0.4 times the carbon
  potential of the top rice entry, plus 0.3 times that of the top crop entry, plus 0.2
  times that of the second crop entry, plus 0.1 times that of the top agroforestry entry,
  an absent entry counting 0; the credits are the carbon times 0.85 and the revenue is the
  credits times 25. With empty rice and agroforestry lists the carbon is 0.3 times the top
  crop plus 0.2 times the second crop.
\<close>

theorem realistic_carbon_blend:
  "calculate_realistic_carbon_potential recs =
     (let carbon =
            0.4 * (case rice recs of [] \<Rightarrow> 0 | r # _ \<Rightarrow> rec_carbon_potential r)
          + 0.3 * (case crops recs of [] \<Rightarrow> 0 | r # _ \<Rightarrow> rec_carbon_potential r)
          + 0.2 * (case crops recs of [] \<Rightarrow> 0 | _ # rest \<Rightarrow>
                     (case rest of [] \<Rightarrow> 0 | r # _ \<Rightarrow> rec_carbon_potential r))
          + 0.1 * (case agroforestry recs of [] \<Rightarrow> 0 | r # _ \<Rightarrow> rec_carbon_potential r)
      in (carbon, carbon * 0.85, carbon * 0.85 * 25.0))
   \<and> calculate_realistic_carbon_potential
        \<lparr>rice = [], agroforestry = [], crops = c1 # c2 # cs\<rparr> =
       (0.3 * rec_carbon_potential c1 + 0.2 * rec_carbon_potential c2,
        (0.3 * rec_carbon_potential c1 + 0.2 * rec_carbon_potential c2) * 0.85,
        (0.3 * rec_carbon_potential c1 + 0.2 * rec_carbon_potential c2) * 0.85 * 25.0)"
  by (simp add: calculate_realistic_carbon_potential_def Let_def split: list.split)

theorem realistic_carbon_blend_witness:
  "calculate_realistic_carbon_potential
     \<lparr>rice = [], agroforestry = [],
      crops = [example_recommendation,
               example_recommendation\<lparr>rec_carbon_potential := 3\<rparr>]\<rparr>
   = (1.2, 1.02, 25.5)"
  using realistic_carbon_blend
    [of "\<lparr>rice = [], agroforestry = [],
          crops = [example_recommendation,
                   example_recommendation\<lparr>rec_carbon_potential := 3\<rparr>]\<rparr>"
        example_recommendation "example_recommendation\<lparr>rec_carbon_potential := 3\<rparr>" "[]"]
  by (simp add: example_recommendation_def)

section \<open>Properties of the farm profile\<close>

lemma create_farm_profile_succeeds:
  assumes "filter (\<lambda>r. w_farm_id r = fid) weather_df \<noteq> []"
  shows "\<exists>farm_profile.
           create_farm_profile_from_data zm weather_df satellite_df soil_df fid
             = Inr farm_profile
           \<and> detected_zone farm_profile
               = detect_zone_from_coordinates zm
                   (w_lat (hd (filter (\<lambda>r. w_farm_id r = fid) weather_df)))
                   (w_lon (hd (filter (\<lambda>r. w_farm_id r = fid) weather_df)))"
proof -
  obtain first rest where fw: "filter (\<lambda>r. w_farm_id r = fid) weather_df = first # rest"
    using assms by (cases "filter (\<lambda>r. w_farm_id r = fid) weather_df") auto
  show ?thesis
    by (simp add: create_farm_profile_from_data_def fw Let_def split: prod.split)
qed

lemma create_farm_profile_vegetation:
  assumes "create_farm_profile_from_data zm weather_df satellite_df soil_df fid
             = Inr farm_profile"
  shows "(ndvi_mean farm_profile, evi_mean farm_profile, lai_mean farm_profile)
           = vegetation_means satellite_df fid
         \<and> vegetation_health farm_profile
             = classify_vegetation_health (ndvi_mean farm_profile)"
proof (cases "filter (\<lambda>r. w_farm_id r = fid) weather_df")
  case Nil
  with assms show ?thesis
    by (simp add: create_farm_profile_from_data_def)
next
  case (Cons first rest)
  obtain n e l where vm: "vegetation_means satellite_df fid = (n, e, l)"
    by (cases "vegetation_means satellite_df fid")
  from assms show ?thesis
    by (auto simp add: create_farm_profile_from_data_def Cons vm Let_def)
qed

text \<open>
  C8. Vegetation rows with NDVI at least 1.0 are discarded before averaging; when no valid
  row remains, or the farm has no vegetation row at all, the mean NDVI, EVI and LAI are
  0.2, 0.2 and 0.5; and the vegetation health of the profile is Excellent for a mean
  NDVI above 0.6, else Good above 0.4, else Fair above 0.2, else Poor.
\<close>

theorem vegetation_means_and_health:
  "vegetation_means satellite_df fid =
     (let valid = filter (\<lambda>r. s_farm_id r = fid \<and> data_type r = ''vegetation''
                              \<and> NDVI r < 1.0) satellite_df
      in if valid = [] then (0.2, 0.2, 0.5)
         else (mean (map NDVI valid), mean (map EVI valid), mean (map LAI valid)))
   \<and> (create_farm_profile_from_data zm weather_df satellite_df soil_df fid
         = Inr farm_profile \<longrightarrow>
       (ndvi_mean farm_profile, evi_mean farm_profile, lai_mean farm_profile)
         = vegetation_means satellite_df fid
       \<and> vegetation_health farm_profile =
           (if ndvi_mean farm_profile > 0.6 then ''Excellent''
            else if ndvi_mean farm_profile > 0.4 then ''Good''
            else if ndvi_mean farm_profile > 0.2 then ''Fair''
            else ''Poor''))"
proof -
  have flt: "filter (\<lambda>r. NDVI r < 1.0) (farm_satellite_rows satellite_df fid)
        = filter (\<lambda>r. s_farm_id r = fid \<and> data_type r = ''vegetation'' \<and> NDVI r < 1.0)
            satellite_df"
    by (simp add: farm_satellite_rows_def conj_commute conj_left_commute)
  have "farm_satellite_rows satellite_df fid = [] \<Longrightarrow>
        filter (\<lambda>r. s_farm_id r = fid \<and> data_type r = ''vegetation'' \<and> NDVI r < 1.0)
          satellite_df = []"
    using flt by (metis filter.simps(1))
  then have means: "vegetation_means satellite_df fid =
     (let valid = filter (\<lambda>r. s_farm_id r = fid \<and> data_type r = ''vegetation''
                              \<and> NDVI r < 1.0) satellite_df
      in if valid = [] then (0.2, 0.2, 0.5)
         else (mean (map NDVI valid), mean (map EVI valid), mean (map LAI valid)))"
    unfolding vegetation_means_def Let_def flt by auto
  show ?thesis
    using means create_farm_profile_vegetation
      [of zm weather_df satellite_df soil_df fid farm_profile]
    by (simp add: classify_vegetation_health_def)
qed

lemma example_vegetation_means:
  "vegetation_means example_satellite ''FARM_001'' = (0.6, 0.45, 1.5)"
  "vegetation_means example_satellite ''FARM_002'' = (0.2, 0.2, 0.5)"
  by (simp_all add: vegetation_means_def farm_satellite_rows_def example_satellite_def mean_def)

theorem vegetation_means_and_health_witness:
  "\<exists>p1 p2.
     create_farm_profile_from_data initialize_complete_zone_mappings
       example_weather example_satellite [] ''FARM_001'' = Inr p1
   \<and> create_farm_profile_from_data initialize_complete_zone_mappings
       example_weather example_satellite [] ''FARM_002'' = Inr p2
   \<and> (ndvi_mean p1, evi_mean p1, lai_mean p1) = (0.6, 0.45, 1.5)
   \<and> vegetation_health p1 = ''Good''
   \<and> (ndvi_mean p2, evi_mean p2, lai_mean p2) = (0.2, 0.2, 0.5)
   \<and> vegetation_health p2 = ''Poor''"
proof -
  obtain p1 where p1: "create_farm_profile_from_data initialize_complete_zone_mappings
       example_weather example_satellite [] ''FARM_001'' = Inr p1"
    using create_farm_profile_succeeds
      [of "''FARM_001''" example_weather initialize_complete_zone_mappings example_satellite "[]"]
    by (auto simp add: example_weather_def)
  obtain p2 where p2: "create_farm_profile_from_data initialize_complete_zone_mappings
       example_weather example_satellite [] ''FARM_002'' = Inr p2"
    using create_farm_profile_succeeds
      [of "''FARM_002''" example_weather initialize_complete_zone_mappings example_satellite "[]"]
    by (auto simp add: example_weather_def)
  have "(ndvi_mean p1, evi_mean p1, lai_mean p1)
          = vegetation_means example_satellite ''FARM_001''
        \<and> vegetation_health p1 =
            (if ndvi_mean p1 > 0.6 then ''Excellent''
             else if ndvi_mean p1 > 0.4 then ''Good''
             else if ndvi_mean p1 > 0.2 then ''Fair''
             else ''Poor'')"
    using vegetation_means_and_health
      [of example_satellite "''FARM_001''" initialize_complete_zone_mappings
          example_weather "[]" p1] p1
    by blast
  then have v1: "(ndvi_mean p1, evi_mean p1, lai_mean p1) = (0.6, 0.45, 1.5)
        \<and> vegetation_health p1 = ''Good''"
    by (simp add: example_vegetation_means)
  have "(ndvi_mean p2, evi_mean p2, lai_mean p2)
          = vegetation_means example_satellite ''FARM_002''
        \<and> vegetation_health p2 =
            (if ndvi_mean p2 > 0.6 then ''Excellent''
             else if ndvi_mean p2 > 0.4 then ''Good''
             else if ndvi_mean p2 > 0.2 then ''Fair''
             else ''Poor'')"
    using vegetation_means_and_health
      [of example_satellite "''FARM_002''" initialize_complete_zone_mappings
          example_weather "[]" p2] p2
    by blast
  then have v2: "(ndvi_mean p2, evi_mean p2, lai_mean p2) = (0.2, 0.2, 0.5)
        \<and> vegetation_health p2 = ''Poor''"
    by (simp add: example_vegetation_means)
  show ?thesis
    using p1 p2 v1 v2 by blast
qed

section \<open>Properties of the recommendation lists\<close>

lemma round_half_even_ge_floor: "\<lfloor>y\<rfloor> \<le> round_half_even y"
  by (simp add: round_half_even_def Let_def)

text \<open>Rounding to three digits does not take a score below the threshold.\<close>

lemma py_round_keeps_threshold:
  assumes "0.70 \<le> x"
  shows "0.70 \<le> py_round x 3"
proof -
  have "(700::real) \<le> x * 1000" using assms by simp
  then have "(700::int) \<le> \<lfloor>x * 1000\<rfloor>" by (simp add: le_floor_iff)
  then have "(700::int) \<le> round_half_even (x * 1000)"
    using round_half_even_ge_floor [of "x * 1000"] by linarith
  then have "(700::real) \<le> of_int (round_half_even (x * 1000))" by linarith
  then show ?thesis by (simp add: py_round_def)
qed

lemma category_recommendations_threshold:
  "\<forall>r \<in> set (category_recommendations farm_profile category_name varieties).
     0.70 \<le> suitability_score r"
proof (induction varieties)
  case Nil
  then show ?case by simp
next
  case (Cons v varieties)
  show ?case
  proof (cases "0.70 \<le> calculate_enhanced_suitability_score farm_profile v")
    case True
    then have "0.70 \<le> py_round (calculate_enhanced_suitability_score farm_profile v) 3"
      by (rule py_round_keeps_threshold)
    with True Cons.IH show ?thesis
      by (simp add: Let_def del: divide_le_eq_numeral1 le_divide_eq_numeral1)
  next
    case False
    with Cons.IH show ?thesis
      by (simp add: Let_def del: divide_le_eq_numeral1 le_divide_eq_numeral1)
  qed
qed

text \<open>The candidates of a category are the varieties that reach the threshold, in catalog
  order, each with its rounded score.\<close>

lemma category_recommendations_catalog_order:
  "map (\<lambda>r. (rec_variety_id r, suitability_score r))
       (category_recommendations farm_profile category_name varieties)
   = map (\<lambda>v. (variety_id v,
                py_round (calculate_enhanced_suitability_score farm_profile v) 3))
       (filter (\<lambda>v. calculate_enhanced_suitability_score farm_profile v \<ge> 0.70)
               varieties)"
  by (induction varieties) (simp_all add: Let_def)

lemma sort_reverse_set: "set (sort_reverse key xs) = set xs"
  by (simp add: sort_reverse_def)

lemma sort_reverse_descending:
  "sorted_wrt (\<lambda>a b. key a \<ge> key b) (sort_reverse key xs)"
proof -
  have "sorted (map (\<lambda>x. - key x) (sort_key (\<lambda>x. - key x) xs))"
    by (rule sorted_sort_key)
  then show ?thesis
    by (simp add: sort_reverse_def sorted_wrt_map)
qed

lemma sort_reverse_stable:
  "filter (\<lambda>x. key x = k) (sort_reverse key xs) = filter (\<lambda>x. key x = k) xs"
proof -
  have "filter (\<lambda>x. - key x = - k) (sort_key (\<lambda>x. - key x) xs)
          = filter (\<lambda>x. - key x = - k) xs"
    by (rule sort_key_stable)
  then show ?thesis
    by (simp add: sort_reverse_def)
qed

lemma slice_to_prefix: "prefix (slice_to xs n) xs"
  by (simp add: slice_to_def take_is_prefix)

lemma slice_to_length: "0 \<le> n \<Longrightarrow> int (length (slice_to xs n)) \<le> n"
  by (simp add: slice_to_def)

lemma top_recommendations_ranked:
  assumes "0 \<le> top_n"
  shows "int (length (top_recommendations farm_profile category_name varieties top_n)) \<le> top_n"
    and "\<forall>r \<in> set (top_recommendations farm_profile category_name varieties top_n).
           0.70 \<le> suitability_score r"
    and "sorted_wrt (\<lambda>r1 r2. suitability_score r1 \<ge> suitability_score r2)
           (top_recommendations farm_profile category_name varieties top_n)"
    and "prefix (filter (\<lambda>r. suitability_score r = k)
                   (top_recommendations farm_profile category_name varieties top_n))
                (filter (\<lambda>r. suitability_score r = k)
                   (category_recommendations farm_profile category_name varieties))"
proof -
  let ?cands = "category_recommendations farm_profile category_name varieties"
  let ?sorted = "sort_reverse suitability_score ?cands"
  let ?top = "top_recommendations farm_profile category_name varieties top_n"
  have pre: "prefix ?top ?sorted"
    by (simp add: top_recommendations_def slice_to_prefix)
  show "int (length ?top) \<le> top_n"
    using assms by (simp add: top_recommendations_def slice_to_length)
  have "set ?top \<subseteq> set ?sorted"
    using pre by (rule set_mono_prefix)
  then show "\<forall>r \<in> set ?top. 0.70 \<le> suitability_score r"
    using category_recommendations_threshold [of farm_profile category_name varieties]
    by (auto simp add: sort_reverse_set)
  obtain rest where rest: "?sorted = ?top @ rest"
    using pre by (auto simp add: prefix_def)
  have "sorted_wrt (\<lambda>r1 r2. suitability_score r1 \<ge> suitability_score r2) (?top @ rest)"
    using sort_reverse_descending [of suitability_score ?cands] rest by simp
  then show "sorted_wrt (\<lambda>r1 r2. suitability_score r1 \<ge> suitability_score r2) ?top"
    by (simp add: sorted_wrt_append)
  have "prefix (filter (\<lambda>r. suitability_score r = k) ?top)
               (filter (\<lambda>r. suitability_score r = k) ?sorted)"
    using pre by (rule filter_mono_prefix)
  then show "prefix (filter (\<lambda>r. suitability_score r = k) ?top)
                    (filter (\<lambda>r. suitability_score r = k) ?cands)"
    by (simp add: sort_reverse_stable)
qed

lemma generate_recommendations_lists:
  assumes "generate_recommendations eng farm_profile top_n = Inr a"
  shows "rice (recommendations a)
           = top_recommendations farm_profile ''rice'' (rice_varieties (db eng)) top_n"
    and "agroforestry (recommendations a)
           = top_recommendations farm_profile ''agroforestry''
               (agroforestry_species (db eng)) top_n"
    and "crops (recommendations a)
           = top_recommendations farm_profile ''crops'' (crop_varieties (db eng)) top_n"
  using assms
  by (auto simp add: generate_recommendations_def Let_def split: option.splits prod.splits)

lemma generate_recommendations_succeeds:
  assumes "map_of (zone_mappings eng) (detected_zone farm_profile) = Some zi"
  shows "\<exists>a. generate_recommendations eng farm_profile top_n = Inr a"
  using assms
  by (simp add: generate_recommendations_def Let_def split: prod.split)

text \<open>
  C4, as the code has it. For every farm profile and every \<open>top_n\<close> that is not negative,
  each per-category list returned by \<^verbatim>\<open>generate_recommendations\<close> has at most \<open>top_n\<close>
  entries, has no entry with a suitability score below 0.70, and is sorted by descending
  suitability score, entries of equal score staying in catalog order.
\<close>

theorem recommendations_ranked:
  assumes "generate_recommendations eng farm_profile top_n = Inr a" and "0 \<le> top_n"
  shows "\<forall>(category_name, varieties, recs) \<in>
            {(''rice'', rice_varieties (db eng), rice (recommendations a)),
             (''agroforestry'', agroforestry_species (db eng),
                agroforestry (recommendations a)),
             (''crops'', crop_varieties (db eng), crops (recommendations a))}.
           int (length recs) \<le> top_n
         \<and> (\<forall>r \<in> set recs. 0.70 \<le> suitability_score r)
         \<and> sorted_wrt (\<lambda>r1 r2. suitability_score r1 \<ge> suitability_score r2) recs
         \<and> (\<forall>k. prefix (filter (\<lambda>r. suitability_score r = k) recs)
                   (filter (\<lambda>r. suitability_score r = k)
                      (category_recommendations farm_profile category_name varieties)))
         \<and> map (\<lambda>r. (rec_variety_id r, suitability_score r))
               (category_recommendations farm_profile category_name varieties)
             = map (\<lambda>v. (variety_id v,
                          py_round (calculate_enhanced_suitability_score farm_profile v) 3))
                 (filter (\<lambda>v. calculate_enhanced_suitability_score farm_profile v \<ge> 0.70)
                         varieties)"
  using generate_recommendations_lists [OF assms(1)]
    top_recommendations_ranked [OF assms(2)]
    category_recommendations_catalog_order
  by simp

end
